theory Spec2Isabelle
  imports Complex_Main
begin

section \<open>JavaScript values\<close>

text \<open>
  A JavaScript string is a sequence of UTF-16 code units; a code unit is modelled as a
  natural number. \<open>str\<close> turns an ASCII literal into its code units.
\<close>

type_synonym jstring = "nat list"

definition str :: "string \<Rightarrow> jstring" where
  "str s = map of_char s"

text \<open>
  A JavaScript number is NaN, an infinity, or a finite value. A finite value is held as
  the rational it denotes. Rounding a decimal literal to the nearest double is modelled
  at the two ends of the range only (overflow to an infinity, underflow to zero); inside
  the range the literal's exact value is kept. The sign of zero is not modelled.
\<close>

datatype jsnum = NaN | NInf | Fin rat | PInf

datatype jsval =
    JUndef
  | JNull
  | JBool bool
  | JNum jsnum
  | JStr jstring
  | JArr "jsval list"
  | JObj "(jstring \<times> jsval) list"
  | JDate jsval

text \<open>
  \<open>JDate v\<close> stands for the object \<open>new Date(v)\<close>; how the runtime reads \<open>v\<close> as a
  date is not modelled. A decoded JSON object is an association list; \<open>get\<close> reads a
  property and gives \<open>undefined\<close> for a missing key.
\<close>

type_synonym obj = "(jstring \<times> jsval) list"

definition get :: "obj \<Rightarrow> string \<Rightarrow> jsval" where
  "get ob k = (case map_of ob (str k) of None \<Rightarrow> JUndef | Some v \<Rightarrow> v)"

datatype error = SyntaxError | TypeError

text \<open>Reading a property of an arbitrary value: \<open>null\<close> and \<open>undefined\<close> throw.\<close>

fun read_prop :: "jsval \<Rightarrow> string \<Rightarrow> error + jsval" where
  "read_prop JUndef k = Inl TypeError"
| "read_prop JNull k = Inl TypeError"
| "read_prop (JObj ob) k = Inr (get ob k)"
| "read_prop v k = Inr JUndef"

text \<open>Sequencing: an exception thrown by the first step is the outcome.\<close>

definition and_then :: "error + 'a \<Rightarrow> ('a \<Rightarrow> error + 'b) \<Rightarrow> error + 'b" where
  "and_then m f = (case m of Inl e \<Rightarrow> Inl e | Inr x \<Rightarrow> f x)"

subsection \<open>Truthiness and the \<open>||\<close> operator\<close>

fun falsy_num :: "jsnum \<Rightarrow> bool" where
  "falsy_num NaN = True"
| "falsy_num (Fin q) = (q = 0)"
| "falsy_num n = False"

fun truthy :: "jsval \<Rightarrow> bool" where
  "truthy JUndef = False"
| "truthy JNull = False"
| "truthy (JBool b) = b"
| "truthy (JNum n) = (\<not> falsy_num n)"
| "truthy (JStr s) = (s \<noteq> [])"
| "truthy v = True"

definition or_else :: "jsval \<Rightarrow> jsval \<Rightarrow> jsval" where
  "or_else v d = (if truthy v then v else d)"

definition or_num :: "jsnum \<Rightarrow> jsnum \<Rightarrow> jsnum" where
  "or_num n d = (if falsy_num n then d else n)"

subsection \<open>Comparison, \<open>Math.max\<close> and \<open>Math.min\<close>\<close>

fun num_le :: "jsnum \<Rightarrow> jsnum \<Rightarrow> bool" where
  "num_le NaN b = False"
| "num_le a NaN = False"
| "num_le NInf b = True"
| "num_le a PInf = True"
| "num_le (Fin p) (Fin q) = (p \<le> q)"
| "num_le a b = False"

definition Math_max :: "jsnum \<Rightarrow> jsnum \<Rightarrow> jsnum" where
  "Math_max a b = (if a = NaN \<or> b = NaN then NaN else if num_le a b then b else a)"

definition Math_min :: "jsnum \<Rightarrow> jsnum \<Rightarrow> jsnum" where
  "Math_min a b = (if a = NaN \<or> b = NaN then NaN else if num_le a b then a else b)"

subsection \<open>White space, \<open>trim\<close> and \<open>parseFloat\<close>\<close>

definition is_line_terminator :: "nat \<Rightarrow> bool" where
  "is_line_terminator c = (c = 10 \<or> c = 13 \<or> c = 8232 \<or> c = 8233)"

definition is_ws :: "nat \<Rightarrow> bool" where
  "is_ws c = (is_line_terminator c \<or> c = 9 \<or> c = 11 \<or> c = 12 \<or> c = 32 \<or> c = 160
     \<or> c = 5760 \<or> (8192 \<le> c \<and> c \<le> 8202) \<or> c = 8239 \<or> c = 8287 \<or> c = 12288
     \<or> c = 65279)"

definition is_digit :: "nat \<Rightarrow> bool" where
  "is_digit c = (48 \<le> c \<and> c \<le> 57)"

definition trim_start :: "jstring \<Rightarrow> jstring" where
  "trim_start s = dropWhile is_ws s"

definition trim :: "jstring \<Rightarrow> jstring" where
  "trim s = rev (dropWhile is_ws (rev (dropWhile is_ws s)))"

definition digits_val :: "jstring \<Rightarrow> nat" where
  "digits_val ds = foldl (\<lambda>a c. 10 * a + (c - 48)) 0 ds"

definition to_double :: "rat \<Rightarrow> jsnum" where
  "to_double q =
     (if 2 ^ 1024 - 2 ^ 970 \<le> \<bar>q\<bar> then (if q < 0 then NInf else PInf)
      else if \<bar>q\<bar> \<le> 1 / 2 ^ 1075 then Fin 0
      else Fin q)"

text \<open>The exponent part \<open>[eE][+-]?[0-9]+\<close> at the head of a text, if there is one.\<close>

definition exponent_part :: "jstring \<Rightarrow> int" where
  "exponent_part s =
     (case s of
        [] \<Rightarrow> 0
      | e # r \<Rightarrow>
          if e = 101 \<or> e = 69 then
            (case r of
               [] \<Rightarrow> 0
             | g # r' \<Rightarrow>
                 if is_digit g then int (digits_val (takeWhile is_digit r))
                 else if g = 43 \<and> r' \<noteq> [] \<and> is_digit (hd r') then
                   int (digits_val (takeWhile is_digit r'))
                 else if g = 45 \<and> r' \<noteq> [] \<and> is_digit (hd r') then
                   - int (digits_val (takeWhile is_digit r'))
                 else 0)
          else 0)"

text \<open>
  The longest prefix that is an unsigned decimal literal: \<open>Infinity\<close>, digits with an
  optional fraction and exponent, or a fraction that starts with the point.
\<close>

definition unsigned_literal :: "jstring \<Rightarrow> jsnum" where
  "unsigned_literal s =
     (if take 8 s = str ''Infinity'' then PInf
      else
        let ip = takeWhile is_digit s;
            r1 = dropWhile is_digit s;
            fp = (case r1 of [] \<Rightarrow> [] | c # r \<Rightarrow> if c = 46 then takeWhile is_digit r else []);
            r2 = (case r1 of [] \<Rightarrow> [] | c # r \<Rightarrow> if c = 46 then dropWhile is_digit r else r1);
            ex = exponent_part r2
        in if ip = [] \<and> fp = [] then NaN
           else to_double
             (if 0 \<le> ex
              then of_nat (digits_val (ip @ fp)) * 10 ^ nat ex / 10 ^ length fp
              else of_nat (digits_val (ip @ fp)) / (10 ^ nat (- ex) * 10 ^ length fp)))"

fun negate :: "jsnum \<Rightarrow> jsnum" where
  "negate NaN = NaN"
| "negate NInf = PInf"
| "negate PInf = NInf"
| "negate (Fin q) = Fin (- q)"

definition parseFloat_text :: "jstring \<Rightarrow> jsnum" where
  "parseFloat_text s =
     (case trim_start s of
        [] \<Rightarrow> NaN
      | c # r \<Rightarrow>
          if c = 45 then negate (unsigned_literal r)
          else if c = 43 then unsigned_literal r
          else unsigned_literal (c # r))"

text \<open>
  Turning a value into a string (\<open>ToString\<close>) throws a \<open>TypeError\<close> for a decoded
  object that has a key \<open>toString\<close> of its own: the value under the key is no function,
  and the inherited \<open>valueOf\<close> gives back the object. An array is printed by joining the
  strings of all its elements, so it throws when one of them does. Turning a value into
  a primitive for \<open>new Date\<close> throws for the same values.
\<close>

fun ToString_throws :: "jsval \<Rightarrow> bool" where
  "ToString_throws (JObj ob) = (map_of ob (str ''toString'') \<noteq> None)"
| "ToString_throws (JArr xs) = list_ex ToString_throws xs"
| "ToString_throws v = False"

text \<open>
  The number read from the string of a value whose \<open>ToString\<close> does not throw. A number
  prints and reads back as itself; \<open>undefined\<close>, \<open>null\<close>, booleans, objects and dates
  print as text that is no number; the elements of an array are joined by commas, so
  only the first is read.
\<close>

fun read_number :: "jsval \<Rightarrow> jsnum" where
  "read_number (JNum n) = n"
| "read_number (JStr s) = parseFloat_text s"
| "read_number (JArr (x # xs)) = read_number x"
| "read_number v = NaN"

definition parseFloat :: "jsval \<Rightarrow> error + jsnum" where
  "parseFloat v = (if ToString_throws v then Inl TypeError else Inr (read_number v))"

definition new_Date :: "jsval \<Rightarrow> error + jsval" where
  "new_Date v = (if ToString_throws v then Inl TypeError else Inr (JDate v))"

section \<open>The closed enumerations of the expense model\<close>

definition ExpenseCategory_values :: "jstring list" where
  "ExpenseCategory_values = map str
     [''Food & Dining'', ''Groceries'', ''Transportation'', ''Utilities'', ''Entertainment'',
      ''Healthcare'', ''Shopping'', ''Travel'', ''Education'', ''Business'',
      ''Home & Maintenance'', ''Subscriptions'', ''Insurance'', ''Taxes'',
      ''Gifts & Donations'', ''Personal Care'', ''Other'']"

definition ExpenseCategory_OTHER :: jstring where
  "ExpenseCategory_OTHER = str ''Other''"

definition PaymentMethod_values :: "jstring list" where
  "PaymentMethod_values = map str
     [''Cash'', ''Credit Card'', ''Debit Card'', ''Bank Transfer'', ''Digital Wallet'',
      ''Check'', ''Other'']"

definition PaymentMethod_OTHER :: jstring where
  "PaymentMethod_OTHER = str ''Other''"

definition ExpenseType_values :: "jstring list" where
  "ExpenseType_values = map str [''Personal'', ''Business'', ''Tax Deductible'']"

definition ExpenseType_PERSONAL :: jstring where
  "ExpenseType_PERSONAL = str ''Personal''"

text \<open>
  \<open>Array.prototype.includes\<close> on an array of strings: only a string with the same code
  units is found.
\<close>

definition array_includes :: "jstring list \<Rightarrow> jsval \<Rightarrow> bool" where
  "array_includes xs v = (case v of JStr s \<Rightarrow> s \<in> set xs | _ \<Rightarrow> False)"

section \<open>The record returned by \<open>analyzeReceiptWithGemini\<close>\<close>

record ILineItem =
  name :: jsval
  quantity :: jsnum
  unitPrice :: jsnum
  totalPrice :: jsnum

text \<open>
  Fields that the code fills with \<open>x || default\<close> can hold any decoded value, so they are
  \<open>jsval\<close>; fields filled through \<open>parseFloat\<close> are numbers; \<open>tip\<close> and \<open>discount\<close> are
  \<open>undefined\<close> (\<open>None\<close>) or a number.
\<close>

record extracted =
  vendor :: jsval
  vendorAddress :: jsval
  vendorPhone :: jsval
  date :: jsval
  receiptNumber :: jsval
  subtotal :: jsnum
  tax :: jsnum
  tip :: "jsnum option"
  discount :: "jsnum option"
  total :: jsnum
  currency :: jsval
  category :: jsval
  paymentMethod :: jsval
  lineItems :: "ILineItem list"
  rawText :: jsval
  confidence :: jsnum

section \<open>Tier 1: the decoded JSON object\<close>

text \<open>
  The callback of \<open>lineItems.map\<close>; reading a property of \<open>null\<close> throws, and so can
  \<open>parseFloat\<close>.
\<close>

definition lineItem_of :: "jsval \<Rightarrow> error + ILineItem" where
  "lineItem_of item =
     and_then (read_prop item ''name'') (\<lambda>n.
     and_then (and_then (read_prop item ''quantity'') parseFloat) (\<lambda>q.
     and_then (and_then (read_prop item ''unitPrice'') parseFloat) (\<lambda>u.
     and_then (and_then (read_prop item ''totalPrice'') parseFloat) (\<lambda>p.
       Inr \<lparr> name = or_else n (JStr (str ''Unknown Item'')),
             quantity = or_num q (Fin 1),
             unitPrice = or_num u (Fin 0),
             totalPrice = or_num p (Fin 0) \<rparr>))))"

fun map_lineItems :: "jsval list \<Rightarrow> error + ILineItem list" where
  "map_lineItems [] = Inr []"
| "map_lineItems (x # xs) =
     (case lineItem_of x of
        Inl e \<Rightarrow> Inl e
      | Inr i \<Rightarrow> (case map_lineItems xs of Inl e \<Rightarrow> Inl e | Inr r \<Rightarrow> Inr (i # r)))"

text \<open>
  The object literal of lines 120 to 146, for the decoded object \<open>pd\<close>; \<open>today\<close> is
  \<open>new Date().toISOString().split('T')[0]\<close>. The steps that can throw are taken in the
  order of the literal.
\<close>

definition optional_amount :: "jsval \<Rightarrow> error + jsnum option" where
  "optional_amount v = (if truthy v then and_then (parseFloat v) (\<lambda>n. Inr (Some n)) else Inr None)"

definition tier1 :: "jstring \<Rightarrow> jstring \<Rightarrow> obj \<Rightarrow> error + extracted" where
  "tier1 today responseText pd =
     and_then (parseFloat (get pd ''subtotal'')) (\<lambda>st.
     and_then (parseFloat (get pd ''tax'')) (\<lambda>tx.
     and_then (optional_amount (get pd ''tip'')) (\<lambda>tp.
     and_then (optional_amount (get pd ''discount'')) (\<lambda>ds.
     and_then (parseFloat (get pd ''total'')) (\<lambda>tt.
     and_then (case get pd ''lineItems'' of JArr xs \<Rightarrow> map_lineItems xs | _ \<Rightarrow> Inr [])
       (\<lambda>items.
     and_then (parseFloat (get pd ''confidence'')) (\<lambda>cf.
       Inr \<lparr> vendor = or_else (get pd ''vendor'') (JStr (str ''Unknown Vendor'')),
             vendorAddress = or_else (get pd ''vendorAddress'') JUndef,
             vendorPhone = or_else (get pd ''vendorPhone'') JUndef,
             date = or_else (get pd ''date'') (JStr today),
             receiptNumber = or_else (get pd ''receiptNumber'') JUndef,
             subtotal = or_num st (Fin 0),
             tax = or_num tx (Fin 0),
             tip = tp,
             discount = ds,
             total = or_num tt (Fin 0),
             currency = or_else (get pd ''currency'') (JStr (str ''USD'')),
             category = (if array_includes ExpenseCategory_values (get pd ''category'')
                         then get pd ''category'' else JStr ExpenseCategory_OTHER),
             paymentMethod = (if array_includes PaymentMethod_values (get pd ''paymentMethod'')
                              then get pd ''paymentMethod'' else JStr PaymentMethod_OTHER),
             lineItems = items,
             rawText = or_else (get pd ''rawText'') (JStr responseText),
             confidence = Math_min (Math_max (or_num cf (Fin (1 / 2))) (Fin 0)) (Fin 1)
           \<rparr>)))))))"

section \<open>The regular expressions\<close>

text \<open>
  \<open>/\{[\s\S]*\}/\<close>: from the first opening brace to the last closing brace after it.
\<close>

definition json_match :: "jstring \<Rightarrow> jstring option" where
  "json_match s =
     (case dropWhile (\<lambda>c. c \<noteq> 123) s of
        [] \<Rightarrow> None
      | b # r \<Rightarrow>
          if 125 \<in> set r then Some (b # rev (dropWhile (\<lambda>c. c \<noteq> 125) (rev r)))
          else None)"

text \<open>
  Matching a lower-case ASCII literal under the \<open>i\<close> flag (without the \<open>u\<close> flag a
  code unit above 127 never matches an ASCII letter).
\<close>

definition lower :: "nat \<Rightarrow> nat" where
  "lower c = (if 65 \<le> c \<and> c \<le> 90 then c + 32 else c)"

definition starts_with_ci :: "string \<Rightarrow> jstring \<Rightarrow> bool" where
  "starts_with_ci lit s =
     (length lit \<le> length s \<and> map lower (take (length lit) s) = str lit)"

text \<open>
  \<open>\s*(.+)\<close> after a label. The white space is taken greedily; the group then takes the
  rest of the line. When only white space is left, the engine backtracks and the group
  gets the last white-space character that is no line terminator.
\<close>

definition capture_line :: "jstring \<Rightarrow> jstring option" where
  "capture_line s =
     (case dropWhile is_ws s of
        c # r \<Rightarrow> Some (takeWhile (\<lambda>x. \<not> is_line_terminator x) (c # r))
      | [] \<Rightarrow>
          (case dropWhile is_line_terminator (rev s) of
             [] \<Rightarrow> None
           | c # r \<Rightarrow> Some [c]))"

text \<open>\<open>\s*([0-9.]+)\<close> after a label.\<close>

definition capture_amount :: "jstring \<Rightarrow> jstring option" where
  "capture_amount s =
     (case takeWhile (\<lambda>c. is_digit c \<or> c = 46) (dropWhile is_ws s) of
        [] \<Rightarrow> None
      | c # r \<Rightarrow> Some (c # r))"

text \<open>\<open>String.prototype.match\<close> without the \<open>g\<close> flag: the leftmost position that matches.\<close>

fun find_match :: "(jstring \<Rightarrow> jstring option) \<Rightarrow> jstring \<Rightarrow> jstring option" where
  "find_match m [] = None"
| "find_match m (c # cs) =
     (case m (c # cs) of Some r \<Rightarrow> Some r | None \<Rightarrow> find_match m cs)"

definition vendor_at :: "jstring \<Rightarrow> jstring option" where
  "vendor_at s =
     (if starts_with_ci ''vendor:'' s then capture_line (drop 7 s)
      else if starts_with_ci ''store:'' s then capture_line (drop 6 s)
      else None)"

definition date_at :: "jstring \<Rightarrow> jstring option" where
  "date_at s = (if starts_with_ci ''date:'' s then capture_line (drop 5 s) else None)"

definition total_at :: "jstring \<Rightarrow> jstring option" where
  "total_at s = (if starts_with_ci ''total:'' s then capture_amount (drop 6 s) else None)"

section \<open>Tier 2: the labelled lines\<close>

definition fallback :: "jstring \<Rightarrow> jstring \<Rightarrow> extracted" where
  "fallback today responseText =
     \<lparr> vendor = (case find_match vendor_at responseText of
                   Some m \<Rightarrow> JStr (trim m) | None \<Rightarrow> JStr (str ''Unknown Vendor'')),
       vendorAddress = JUndef,
       vendorPhone = JUndef,
       date = (case find_match date_at responseText of
                 Some m \<Rightarrow> JStr (trim m) | None \<Rightarrow> JStr today),
       receiptNumber = JUndef,
       subtotal = Fin 0,
       tax = Fin 0,
       tip = None,
       discount = None,
       total = (case find_match total_at responseText of
                  Some m \<Rightarrow> parseFloat_text m | None \<Rightarrow> Fin 0),
       currency = JStr (str ''USD''),
       category = JStr ExpenseCategory_OTHER,
       paymentMethod = JStr PaymentMethod_OTHER,
       lineItems = [],
       rawText = JStr responseText,
       confidence = Fin (3 / 10) \<rparr>"

section \<open>\<open>analyzeReceiptWithGemini\<close>, from the response text on\<close>

text \<open>
  \<open>JSON.parse\<close> is a parameter: \<open>None\<close> is its \<open>SyntaxError\<close>. The text it is given
  starts with an opening brace, so what it decodes is an object. \<open>structured\<close> is the
  body of the \<open>try\<close> block: \<open>Inr None\<close> when the block ends without returning. In the
  instances below the decoder is a finite table, \<open>map_of\<close> of pairs of a JSON text and
  the object it denotes.
\<close>

definition structured ::
  "(jstring \<Rightarrow> obj option) \<Rightarrow> jstring \<Rightarrow> jstring \<Rightarrow> error + extracted option" where
  "structured JSON_parse today responseText =
     (case json_match responseText of
        None \<Rightarrow> Inr None
      | Some m \<Rightarrow>
          (case JSON_parse m of
             None \<Rightarrow> Inl SyntaxError
           | Some pd \<Rightarrow>
               (case tier1 today responseText pd of
                  Inl e \<Rightarrow> Inl e
                | Inr r \<Rightarrow> Inr (Some r))))"

text \<open>The \<open>catch\<close> clause only logs, and control reaches the fallback.\<close>

definition analyzeReceiptWithGemini ::
  "(jstring \<Rightarrow> obj option) \<Rightarrow> jstring \<Rightarrow> jstring \<Rightarrow> error + extracted" where
  "analyzeReceiptWithGemini JSON_parse today responseText =
     (case structured JSON_parse today responseText of
        Inr (Some r) \<Rightarrow> Inr r
      | Inr None \<Rightarrow> Inr (fallback today responseText)
      | Inl e \<Rightarrow> Inr (fallback today responseText))"

section \<open>The documents handed to \<open>Expense.create\<close>\<close>

text \<open>
  The argument of \<open>Expense.create\<close> in the manual branch of \<open>POST\<close> (lines 183 to 214).
  \<open>body\<close> is the decoded request body, an object whose \<open>manual\<close> is \<open>true\<close>, and \<open>now\<close>
  is \<open>new Date()\<close>. \<open>new Date(body.date)\<close> and the five \<open>parseFloat\<close> calls can throw;
  the branch then answers 500 and \<open>Expense.create\<close> is not called.
\<close>

definition manual_doc :: "obj \<Rightarrow> jsval \<Rightarrow> error + obj" where
  "manual_doc body now =
     and_then (new_Date (get body ''date'')) (\<lambda>dt.
     and_then (parseFloat (get body ''subtotal'')) (\<lambda>st.
     and_then (parseFloat (get body ''tax'')) (\<lambda>tx.
     and_then (parseFloat (get body ''tip'')) (\<lambda>tp.
     and_then (parseFloat (get body ''discount'')) (\<lambda>ds.
     and_then (parseFloat (get body ''total'')) (\<lambda>tt. Inr
     [(str ''vendor'', or_else (get body ''vendor'') (JStr (str ''Manual Entry''))),
      (str ''vendorAddress'', or_else (get body ''vendorAddress'') (JStr [])),
      (str ''vendorPhone'', or_else (get body ''vendorPhone'') (JStr [])),
      (str ''date'', dt),
      (str ''receiptNumber'', or_else (get body ''receiptNumber'') (JStr [])),
      (str ''subtotal'', JNum (or_num st (Fin 0))),
      (str ''tax'', JNum (or_num tx (Fin 0))),
      (str ''tip'', JNum (or_num tp (Fin 0))),
      (str ''discount'', JNum (or_num ds (Fin 0))),
      (str ''total'', JNum (or_num tt (Fin 0))),
      (str ''currency'', or_else (get body ''currency'') (JStr (str ''USD''))),
      (str ''category'', or_else (get body ''category'') (JStr ExpenseCategory_OTHER)),
      (str ''paymentMethod'', or_else (get body ''paymentMethod'') (JStr PaymentMethod_OTHER)),
      (str ''expenseType'', JStr ExpenseType_PERSONAL),
      (str ''lineItems'', or_else (get body ''lineItems'') (JArr [])),
      (str ''notes'', or_else (get body ''notes'') (JStr [])),
      (str ''description'', or_else (get body ''description'') (JStr [])),
      (str ''tags'', or_else (get body ''tags'') (JArr [])),
      (str ''isRecurring'', or_else (get body ''isRecurring'') (JBool False)),
      (str ''recurringFrequency'', or_else (get body ''recurringFrequency'') (JStr [])),
      (str ''rawText'', or_else (get body ''rawText'') (JStr [])),
      (str ''imageUrl'', or_else (get body ''imageUrl'') (JStr [])),
      (str ''confidence'', JNum (Fin 1)),
      (str ''isBusinessExpense'', or_else (get body ''isBusinessExpense'') (JBool False)),
      (str ''isTaxDeductible'', or_else (get body ''isTaxDeductible'') (JBool False)),
      (str ''projectId'', or_else (get body ''projectId'') (JStr [])),
      (str ''clientId'', or_else (get body ''clientId'') (JStr [])),
      (str ''source'', JStr (str ''manual'')),
      (str ''createdAt'', now),
      (str ''updatedAt'', now)]))))))"







section \<open>Predicates used in the statements\<close>

text \<open>\<open>n < 0\<close> and \<open>n >= 0\<close> as JavaScript evaluates them (both false for NaN).\<close>

fun negative :: "jsnum \<Rightarrow> bool" where
  "negative NInf = True"
| "negative (Fin q) = (q < 0)"
| "negative n = False"

definition nonneg :: "jsnum \<Rightarrow> bool" where
  "nonneg n = num_le (Fin 0) n"

text \<open>A property of a line-item candidate, \<open>undefined\<close> where the element has none.\<close>

definition item_field :: "jsval \<Rightarrow> string \<Rightarrow> jsval" where
  "item_field item k = (case item of JObj ob \<Rightarrow> get ob k | _ \<Rightarrow> JUndef)"

text \<open>The object that Tier 1 decodes from a response text, if it decodes one.\<close>

definition decoded :: "(jstring \<Rightarrow> obj option) \<Rightarrow> jstring \<Rightarrow> obj option" where
  "decoded JSON_parse responseText =
     (case json_match responseText of None \<Rightarrow> None | Some m \<Rightarrow> JSON_parse m)"

text \<open>A candidate that \<open>parseFloat\<close> reads as a negative number, or as NaN.\<close>

definition reads_negative :: "jsval \<Rightarrow> bool" where
  "reads_negative v = (case parseFloat v of Inl e \<Rightarrow> False | Inr n \<Rightarrow> negative n)"

definition reads_NaN :: "jsval \<Rightarrow> bool" where
  "reads_NaN v = (parseFloat v = Inr NaN)"

text \<open>Some monetary candidate of the decoded object reads as a negative number.\<close>

definition candidate_negative :: "obj \<Rightarrow> bool" where
  "candidate_negative pd =
     (reads_negative (get pd ''subtotal'') \<or>
      reads_negative (get pd ''tax'') \<or>
      reads_negative (get pd ''tip'') \<or>
      reads_negative (get pd ''discount'') \<or>
      reads_negative (get pd ''total'') \<or>
      (case get pd ''lineItems'' of
         JArr xs \<Rightarrow>
           list_ex (\<lambda>x. reads_negative (item_field x ''unitPrice'') \<or>
                         reads_negative (item_field x ''totalPrice'')) xs
       | _ \<Rightarrow> False))"

text \<open>A tip or discount candidate that is truthy and reads as no number.\<close>

definition candidate_unreadable :: "obj \<Rightarrow> bool" where
  "candidate_unreadable pd =
     (truthy (get pd ''tip'') \<and> reads_NaN (get pd ''tip'') \<or>
      truthy (get pd ''discount'') \<and> reads_NaN (get pd ''discount''))"

text \<open>The text after a \<open>total:\<close> label, where there is one, reads as a number.\<close>

definition total_line_readable :: "jstring \<Rightarrow> bool" where
  "total_line_readable responseText =
     (case find_match total_at responseText of
        None \<Rightarrow> True
      | Some m \<Rightarrow> parseFloat_text m \<noteq> NaN)"

text \<open>Every monetary field of a returned record is at least 0.\<close>

definition amounts_nonneg :: "extracted \<Rightarrow> bool" where
  "amounts_nonneg r =
     (nonneg (subtotal r) \<and> nonneg (tax r) \<and> nonneg (total r) \<and>
      (case tip r of None \<Rightarrow> True | Some n \<Rightarrow> nonneg n) \<and>
      (case discount r of None \<Rightarrow> True | Some n \<Rightarrow> nonneg n) \<and>
      list_all (\<lambda>i. nonneg (unitPrice i) \<and> nonneg (totalPrice i)) (lineItems r))"

subsection \<open>A manual request body whose fields are all present and valid\<close>

definition is_string :: "jsval \<Rightarrow> bool" where
  "is_string v = (case v of JStr s \<Rightarrow> True | _ \<Rightarrow> False)"

definition is_boolean :: "jsval \<Rightarrow> bool" where
  "is_boolean v = (case v of JBool b \<Rightarrow> True | _ \<Rightarrow> False)"

definition is_array :: "jsval \<Rightarrow> bool" where
  "is_array v = (case v of JArr xs \<Rightarrow> True | _ \<Rightarrow> False)"

definition is_amount :: "jsval \<Rightarrow> bool" where
  "is_amount v = (case v of JNum (Fin q) \<Rightarrow> 0 \<le> q | _ \<Rightarrow> False)"

definition is_confidence :: "jsval \<Rightarrow> bool" where
  "is_confidence v = (case v of JNum (Fin q) \<Rightarrow> 0 \<le> q \<and> q \<le> 1 | _ \<Rightarrow> False)"

definition valid_manual_body :: "obj \<Rightarrow> bool" where
  "valid_manual_body body =
     (is_string (get body ''vendor'') \<and> truthy (get body ''vendor'') \<and>
      is_string (get body ''vendorAddress'') \<and>
      is_string (get body ''vendorPhone'') \<and>
      is_string (get body ''date'') \<and> truthy (get body ''date'') \<and>
      is_string (get body ''receiptNumber'') \<and>
      is_amount (get body ''subtotal'') \<and>
      is_amount (get body ''tax'') \<and>
      is_amount (get body ''tip'') \<and>
      is_amount (get body ''discount'') \<and>
      is_amount (get body ''total'') \<and>
      is_string (get body ''currency'') \<and> truthy (get body ''currency'') \<and>
      array_includes ExpenseCategory_values (get body ''category'') \<and>
      array_includes PaymentMethod_values (get body ''paymentMethod'') \<and>
      array_includes ExpenseType_values (get body ''expenseType'') \<and>
      is_array (get body ''lineItems'') \<and>
      is_string (get body ''notes'') \<and>
      is_string (get body ''description'') \<and>
      is_array (get body ''tags'') \<and>
      is_boolean (get body ''isRecurring'') \<and>
      is_string (get body ''recurringFrequency'') \<and>
      is_string (get body ''rawText'') \<and>
      is_string (get body ''imageUrl'') \<and>
      is_confidence (get body ''confidence'') \<and>
      is_boolean (get body ''isBusinessExpense'') \<and>
      is_boolean (get body ''isTaxDeductible'') \<and>
      is_string (get body ''projectId'') \<and>
      is_string (get body ''clientId''))"

text \<open>The fields that the manual branch reads from the body with \<open>||\<close> or \<open>parseFloat\<close>.\<close>

definition carried_fields :: "string list" where
  "carried_fields =
     [''vendor'', ''vendorAddress'', ''vendorPhone'', ''receiptNumber'', ''subtotal'', ''tax'',
      ''tip'', ''discount'', ''total'', ''currency'', ''category'', ''paymentMethod'',
      ''lineItems'', ''notes'', ''description'', ''tags'', ''isRecurring'',
      ''recurringFrequency'', ''rawText'', ''imageUrl'', ''isBusinessExpense'',
      ''isTaxDeductible'', ''projectId'', ''clientId'']"

text \<open>A complete manual body: a business lunch entered by hand.\<close>

definition business_lunch :: obj where
  "business_lunch =
     [(str ''manual'', JBool True),
      (str ''vendor'', JStr (str ''Acme Diner'')),
      (str ''vendorAddress'', JStr (str ''1 Main St'')),
      (str ''vendorPhone'', JStr (str ''555-0100'')),
      (str ''date'', JStr (str ''2024-03-01'')),
      (str ''receiptNumber'', JStr (str ''R-17'')),
      (str ''subtotal'', JNum (Fin 40)),
      (str ''tax'', JNum (Fin 4)),
      (str ''tip'', JNum (Fin 6)),
      (str ''discount'', JNum (Fin 0)),
      (str ''total'', JNum (Fin 50)),
      (str ''currency'', JStr (str ''USD'')),
      (str ''category'', JStr (str ''Food & Dining'')),
      (str ''subcategory'', JStr (str ''Lunch'')),
      (str ''paymentMethod'', JStr (str ''Credit Card'')),
      (str ''expenseType'', JStr (str ''Business'')),
      (str ''lineItems'', JArr []),
      (str ''notes'', JStr (str ''client meeting'')),
      (str ''description'', JStr (str ''lunch'')),
      (str ''tags'', JArr [JStr (str ''client'')]),
      (str ''isRecurring'', JBool False),
      (str ''recurringFrequency'', JStr []),
      (str ''rawText'', JStr (str ''typed in'')),
      (str ''imageUrl'', JStr []),
      (str ''confidence'', JNum (Fin (4 / 5))),
      (str ''isBusinessExpense'', JBool True),
      (str ''isTaxDeductible'', JBool True),
      (str ''projectId'', JStr (str ''P1'')),
      (str ''clientId'', JStr (str ''C1''))]"

section \<open>Auxiliary facts\<close>

lemma str_eq_iff: "str a = str b \<longleftrightarrow> a = b"
  by (simp add: str_def inj_map_eq_map inj_on_def)

lemma get_Nil: "get [] k = JUndef"
  by (simp add: get_def)

lemma get_Cons: "get ((str k, v) # ob) k' = (if k = k' then v else get ob k')"
  by (auto simp add: get_def str_eq_iff)

lemmas eval_defs = str_def trim_start_def trim_def is_ws_def is_line_terminator_def
  is_digit_def digits_val_def to_double_def exponent_part_def unsigned_literal_def
  parseFloat_text_def json_match_def lower_def starts_with_ci_def capture_line_def
  capture_amount_def vendor_at_def date_at_def total_at_def

lemma and_then_Inr: "and_then m f = Inr y \<longleftrightarrow> (\<exists>x. m = Inr x \<and> f x = Inr y)"
  by (cases m) (simp_all add: and_then_def)

lemma and_then_simps:
  "and_then (Inr x) f = f x"
  "and_then (Inl e) f = Inl e"
  by (simp_all add: and_then_def)

lemma parseFloat_simps:
  "parseFloat (JNum n) = Inr n"
  "parseFloat (JStr s) = Inr (parseFloat_text s)"
  "parseFloat JUndef = Inr NaN"
  "parseFloat JNull = Inr NaN"
  by (simp_all add: parseFloat_def)

lemma or_num_zero_nonneg: "nonneg (or_num n (Fin 0)) \<longleftrightarrow> \<not> negative n"
  by (cases n) (auto simp add: or_num_def nonneg_def)

lemma not_negative_nonneg: "\<not> negative n \<Longrightarrow> n \<noteq> NaN \<Longrightarrow> nonneg n"
  by (cases n) (auto simp add: nonneg_def)

lemma to_double_not_negative: "0 \<le> q \<Longrightarrow> \<not> negative (to_double q)"
  by (simp add: to_double_def)

lemma unsigned_literal_not_negative: "\<not> negative (unsigned_literal s)"
  by (simp add: unsigned_literal_def Let_def to_double_not_negative)

lemma amount_char_not_ws: "is_digit c \<or> c = 46 \<Longrightarrow> \<not> is_ws c"
  by (auto simp add: is_digit_def is_ws_def is_line_terminator_def)

lemma parseFloat_text_amount:
  assumes "is_digit c \<or> c = 46"
  shows "parseFloat_text (c # r) = unsigned_literal (c # r)"
proof -
  have "trim_start (c # r) = c # r"
    using amount_char_not_ws [OF assms] by (simp add: trim_start_def)
  moreover have "c \<noteq> 45" and "c \<noteq> 43"
    using assms by (auto simp add: is_digit_def)
  ultimately show ?thesis by (simp add: parseFloat_text_def)
qed

lemma capture_amount_head:
  assumes "capture_amount s = Some m"
  shows "\<exists>c r. m = c # r \<and> (is_digit c \<or> c = 46)"
proof -
  let ?p = "\<lambda>c. is_digit c \<or> c = 46"
  from assms have m: "m = takeWhile ?p (dropWhile is_ws s)" and ne: "m \<noteq> []"
    by (auto simp add: capture_amount_def split: list.splits)
  from ne obtain c r where cr: "m = c # r" by (cases m) auto
  have "c \<in> set m" using cr by simp
  then have "c \<in> set (takeWhile ?p (dropWhile is_ws s))" using m by simp
  then have "?p c" by (rule set_takeWhileD [THEN conjunct2])
  with cr show ?thesis by blast
qed

lemma find_match_Some: "find_match f s = Some m \<Longrightarrow> \<exists>u. f u = Some m"
  by (induction s) (auto split: option.splits)

lemma total_match_not_negative:
  assumes "find_match total_at t = Some m"
  shows "\<not> negative (parseFloat_text m)"
proof -
  obtain u where "total_at u = Some m" using assms find_match_Some by blast
  then have "capture_amount (drop 6 u) = Some m"
    by (simp add: total_at_def split: if_splits)
  then obtain c r where "m = c # r" and "is_digit c \<or> c = 46"
    using capture_amount_head by blast
  then have "parseFloat_text m = unsigned_literal m"
    by (simp add: parseFloat_text_amount)
  then show ?thesis by (simp add: unsigned_literal_not_negative)
qed

lemma fallback_amounts_nonneg:
  assumes "total_line_readable t"
  shows "amounts_nonneg (fallback today t)"
proof (cases "find_match total_at t")
  case None
  then show ?thesis by (simp add: amounts_nonneg_def fallback_def nonneg_def)
next
  case (Some m)
  with assms have "parseFloat_text m \<noteq> NaN" by (simp add: total_line_readable_def)
  with total_match_not_negative [OF Some] have "nonneg (parseFloat_text m)"
    by (rule not_negative_nonneg)
  with Some show ?thesis by (simp add: amounts_nonneg_def fallback_def) (simp add: nonneg_def)
qed

lemma read_prop_item_field: "read_prop x k = Inr v \<Longrightarrow> v = item_field x k"
  by (cases x) (auto simp add: item_field_def)

lemma lineItem_of_prices:
  assumes "lineItem_of x = Inr i"
  shows "\<exists>u p. parseFloat (item_field x ''unitPrice'') = Inr u \<and>
               parseFloat (item_field x ''totalPrice'') = Inr p \<and>
               unitPrice i = or_num u (Fin 0) \<and> totalPrice i = or_num p (Fin 0)"
  using assms
  by (auto simp add: lineItem_of_def and_then_Inr dest!: read_prop_item_field)

lemma reads_negative_Inr: "parseFloat v = Inr n \<Longrightarrow> reads_negative v = negative n"
  by (simp add: reads_negative_def)

lemma map_lineItems_nonneg:
  "map_lineItems xs = Inr items \<Longrightarrow>
   \<not> list_ex (\<lambda>x. reads_negative (item_field x ''unitPrice'') \<or>
                   reads_negative (item_field x ''totalPrice'')) xs \<Longrightarrow>
   list_all (\<lambda>i. nonneg (unitPrice i) \<and> nonneg (totalPrice i)) items"
proof (induction xs arbitrary: items)
  case Nil
  then show ?case by simp
next
  case (Cons x xs)
  from Cons.prems(1) obtain i rest where i: "lineItem_of x = Inr i"
    and rest: "map_lineItems xs = Inr rest" and items: "items = i # rest"
    by (auto split: sum.splits)
  from lineItem_of_prices [OF i] obtain u p where
    "parseFloat (item_field x ''unitPrice'') = Inr u"
    "parseFloat (item_field x ''totalPrice'') = Inr p"
    "unitPrice i = or_num u (Fin 0)" "totalPrice i = or_num p (Fin 0)" by blast
  with Cons.prems(2) have "nonneg (unitPrice i) \<and> nonneg (totalPrice i)"
    by (simp add: reads_negative_Inr or_num_zero_nonneg)
  moreover have "list_all (\<lambda>i. nonneg (unitPrice i) \<and> nonneg (totalPrice i)) rest"
    using Cons.IH [OF rest] Cons.prems(2) by simp
  ultimately show ?case using items by simp
qed

text \<open>What a record built by Tier 1 holds.\<close>

lemma optional_amount_Inr:
  "optional_amount v = Inr a \<longleftrightarrow>
     (if truthy v then \<exists>n. parseFloat v = Inr n \<and> a = Some n else a = None)"
  by (auto simp add: optional_amount_def and_then_Inr)

lemma tier1_Inr:
  assumes "tier1 today t pd = Inr r"
  shows "\<exists>st tx tt cf items.
     parseFloat (get pd ''subtotal'') = Inr st \<and>
     parseFloat (get pd ''tax'') = Inr tx \<and>
     parseFloat (get pd ''total'') = Inr tt \<and>
     parseFloat (get pd ''confidence'') = Inr cf \<and>
     optional_amount (get pd ''tip'') = Inr (tip r) \<and>
     optional_amount (get pd ''discount'') = Inr (discount r) \<and>
     (case get pd ''lineItems'' of JArr xs \<Rightarrow> map_lineItems xs | _ \<Rightarrow> Inr []) = Inr items \<and>
     subtotal r = or_num st (Fin 0) \<and> tax r = or_num tx (Fin 0) \<and>
     total r = or_num tt (Fin 0) \<and> lineItems r = items \<and>
     confidence r = Math_min (Math_max (or_num cf (Fin (1 / 2))) (Fin 0)) (Fin 1) \<and>
     date r = or_else (get pd ''date'') (JStr today) \<and>
     currency r = or_else (get pd ''currency'') (JStr (str ''USD'')) \<and>
     category r = (if array_includes ExpenseCategory_values (get pd ''category'')
                   then get pd ''category'' else JStr ExpenseCategory_OTHER) \<and>
     paymentMethod r = (if array_includes PaymentMethod_values (get pd ''paymentMethod'')
                        then get pd ''paymentMethod'' else JStr PaymentMethod_OTHER)"
  using assms unfolding tier1_def and_then_Inr by fastforce


lemma tier1_amounts_nonneg:
  assumes "tier1 today t pd = Inr r"
    and "\<not> candidate_negative pd" and "\<not> candidate_unreadable pd"
  shows "amounts_nonneg r"
proof -
  from tier1_Inr [OF assms(1)] obtain st tx tt items where f:
    "parseFloat (get pd ''subtotal'') = Inr st"
    "parseFloat (get pd ''tax'') = Inr tx"
    "parseFloat (get pd ''total'') = Inr tt"
    "optional_amount (get pd ''tip'') = Inr (tip r)"
    "optional_amount (get pd ''discount'') = Inr (discount r)"
    "(case get pd ''lineItems'' of JArr xs \<Rightarrow> map_lineItems xs | _ \<Rightarrow> Inr []) = Inr items"
    "subtotal r = or_num st (Fin 0)" "tax r = or_num tx (Fin 0)"
    "total r = or_num tt (Fin 0)" "lineItems r = items"
    by blast
  have opt: "(case a of None \<Rightarrow> True | Some n \<Rightarrow> nonneg n)"
    if "optional_amount v = Inr a" "\<not> reads_negative v" "\<not> (truthy v \<and> reads_NaN v)" for v a
    using that
    by (auto simp add: optional_amount_Inr reads_negative_def reads_NaN_def
        intro: not_negative_nonneg split: if_splits)
  have "list_all (\<lambda>i. nonneg (unitPrice i) \<and> nonneg (totalPrice i)) items"
    using f(6) assms(2)
    by (cases "get pd ''lineItems''")
      (auto simp add: candidate_negative_def intro: map_lineItems_nonneg)
  moreover have "nonneg (subtotal r)" "nonneg (tax r)" "nonneg (total r)"
    using f assms(2)
    by (simp_all add: candidate_negative_def reads_negative_Inr or_num_zero_nonneg)
  moreover have "case tip r of None \<Rightarrow> True | Some n \<Rightarrow> nonneg n"
    using opt [OF f(4)] assms(2,3) by (simp add: candidate_negative_def candidate_unreadable_def)
  moreover have "case discount r of None \<Rightarrow> True | Some n \<Rightarrow> nonneg n"
    using opt [OF f(5)] assms(2,3) by (simp add: candidate_negative_def candidate_unreadable_def)
  ultimately show ?thesis using f(10) by (simp add: amounts_nonneg_def)
qed

text \<open>The returned record is the Tier-2 record or a record built by Tier 1.\<close>

lemma analyze_cases:
  assumes "analyzeReceiptWithGemini P today t = Inr r"
  shows "r = fallback today t \<or> (\<exists>pd. decoded P t = Some pd \<and> tier1 today t pd = Inr r)"
  using assms
  by (auto simp add: analyzeReceiptWithGemini_def structured_def decoded_def
      split: sum.splits option.splits)

lemma analyze_returns: "\<exists>r. analyzeReceiptWithGemini P today t = Inr r"
  by (auto simp add: analyzeReceiptWithGemini_def split: sum.splits option.splits)


lemmas run_defs = analyzeReceiptWithGemini_def structured_def decoded_def tier1_def
  lineItem_of_def optional_amount_def parseFloat_def new_Date_def and_then_def
  fallback_def get_def or_else_def or_num_def Math_max_def Math_min_def
  array_includes_def ExpenseCategory_values_def PaymentMethod_values_def
  ExpenseCategory_OTHER_def PaymentMethod_OTHER_def ExpenseType_PERSONAL_def


lemma confidence_range:
  "num_le (Fin 0) (Math_min (Math_max (or_num n (Fin (1 / 2))) (Fin 0)) (Fin 1)) \<and>
   num_le (Math_min (Math_max (or_num n (Fin (1 / 2))) (Fin 0)) (Fin 1)) (Fin 1)"
  by (cases n) (auto simp add: or_num_def Math_max_def Math_min_def)

lemma label_truthy:
  "array_includes ExpenseCategory_values v \<Longrightarrow> truthy v"
  "array_includes PaymentMethod_values v \<Longrightarrow> truthy v"
  by (cases v; auto simp add: array_includes_def ExpenseCategory_values_def
      PaymentMethod_values_def str_def)+

lemma other_is_label:
  "array_includes ExpenseCategory_values (JStr ExpenseCategory_OTHER)"
  "array_includes PaymentMethod_values (JStr PaymentMethod_OTHER)"
  by (simp_all add: array_includes_def ExpenseCategory_values_def PaymentMethod_values_def
      ExpenseCategory_OTHER_def PaymentMethod_OTHER_def)

lemma or_else_keeps:
  "truthy v \<Longrightarrow> or_else v d = v"
  "is_string v \<Longrightarrow> or_else v (JStr []) = v"
  "is_boolean v \<Longrightarrow> or_else v (JBool False) = v"
  "is_array v \<Longrightarrow> or_else v (JArr []) = v"
  by (cases v; auto simp add: or_else_def is_string_def is_boolean_def is_array_def)+

lemma amount_keeps:
  "is_amount v \<Longrightarrow> \<exists>n. parseFloat v = Inr n \<and> JNum (or_num n (Fin 0)) = v"
  by (cases v) (auto simp add: is_amount_def or_num_def parseFloat_def split: jsnum.splits)

lemma string_new_Date: "is_string v \<Longrightarrow> new_Date v = Inr (JDate v)"
  by (cases v) (auto simp add: is_string_def new_Date_def)

lemma business_lunch_valid: "valid_manual_body business_lunch"
  by (simp add: valid_manual_body_def business_lunch_def get_Cons get_Nil is_string_def
      is_boolean_def is_array_def is_amount_def is_confidence_def array_includes_def
      ExpenseCategory_values_def PaymentMethod_values_def ExpenseType_values_def str_eq_iff)
    (simp add: str_def)

text \<open>What a document built by the manual branch holds.\<close>

lemma manual_doc_Inr:
  assumes "manual_doc body now = Inr doc"
  shows "\<exists>st tx tt.
     parseFloat (get body ''subtotal'') = Inr st \<and>
     parseFloat (get body ''tax'') = Inr tx \<and>
     parseFloat (get body ''total'') = Inr tt \<and>
     get doc ''subtotal'' = JNum (or_num st (Fin 0)) \<and>
     get doc ''tax'' = JNum (or_num tx (Fin 0)) \<and>
     get doc ''total'' = JNum (or_num tt (Fin 0)) \<and>
     get doc ''currency'' = or_else (get body ''currency'') (JStr (str ''USD'')) \<and>
     get doc ''category'' = or_else (get body ''category'') (JStr ExpenseCategory_OTHER) \<and>
     get doc ''paymentMethod'' = or_else (get body ''paymentMethod'') (JStr PaymentMethod_OTHER) \<and>
     get doc ''confidence'' = JNum (Fin 1)"
  using assms unfolding manual_doc_def and_then_Inr by (auto simp add: get_Cons)

section \<open>The labelled-lines scenario\<close>

text \<open>
  C9: for the raw text \<open>VENDOR: Joe's Deli\<close>, \<open>DATE: 2024-03-01\<close>, \<open>TOTAL: 12.50\<close> on three
  lines, which holds no JSON object, the result has vendor \<open>Joe's Deli\<close>, date
  \<open>2024-03-01\<close>, total 12.5, and category and payment method \<open>Other\<close>. The whole record
  is given; it does not depend on the decoder or on the processing date.
\<close>

theorem scenario_labelled_lines:
  "analyzeReceiptWithGemini JSON_parse today
     (str ''VENDOR: Joe's Deli'' @ [10] @ str ''DATE: 2024-03-01'' @ [10] @ str ''TOTAL: 12.50'')
   = Inr \<lparr> vendor = JStr (str ''Joe's Deli''),
           vendorAddress = JUndef,
           vendorPhone = JUndef,
           date = JStr (str ''2024-03-01''),
           receiptNumber = JUndef,
           subtotal = Fin 0,
           tax = Fin 0,
           tip = None,
           discount = None,
           total = Fin (25 / 2),
           currency = JStr (str ''USD''),
           category = JStr (str ''Other''),
           paymentMethod = JStr (str ''Other''),
           lineItems = [],
           rawText = JStr (str ''VENDOR: Joe's Deli'' @ [10] @ str ''DATE: 2024-03-01'' @ [10]
                            @ str ''TOTAL: 12.50''),
           confidence = Fin (3 / 10) \<rparr>"
  by (simp add: analyzeReceiptWithGemini_def structured_def fallback_def eval_defs
      ExpenseCategory_OTHER_def PaymentMethod_OTHER_def Let_def)

section \<open>Monetary fields\<close>

text \<open>
  C1 (as amended): for every raw model response the pipeline returns a record, and every
  monetary field of it (subtotal, tax, total, tip and discount where present, and the
  unit price and total price of every line item) is at least 0, provided that no
  monetary candidate of the object decoded from the response reads as a negative number
  and that the amounts read are numbers: no truthy tip or discount candidate reads as
  NaN, and the text after a \<open>total:\<close> label, where there is one, does not read as NaN.
\<close>

theorem amounts_nonnegative:
  assumes "\<forall>pd. decoded JSON_parse t = Some pd \<longrightarrow>
             \<not> candidate_negative pd \<and> \<not> candidate_unreadable pd"
    and "total_line_readable t"
  shows "\<exists>r. analyzeReceiptWithGemini JSON_parse today t = Inr r \<and> amounts_nonneg r"
proof -
  obtain r where r: "analyzeReceiptWithGemini JSON_parse today t = Inr r"
    using analyze_returns by blast
  from analyze_cases [OF r] have "amounts_nonneg r"
    using assms by (auto simp add: fallback_amounts_nonneg tier1_amounts_nonneg)
  with r show ?thesis by blast
qed

text \<open>
  An instance: the response \<open>{"vendor":"Acme","category":"Bogus","total":"19.99"}\<close> with
  the object a JSON decoder gives for it.
\<close>

theorem amounts_nonnegative_witness:
  "decoded
     (map_of [(str ''{\"vendor\":\"Acme\",\"category\":\"Bogus\",\"total\":\"19.99\"}'',
               [(str ''vendor'', JStr (str ''Acme'')), (str ''category'', JStr (str ''Bogus'')),
                (str ''total'', JStr (str ''19.99''))])])
     (str ''{\"vendor\":\"Acme\",\"category\":\"Bogus\",\"total\":\"19.99\"}'')
   = Some [(str ''vendor'', JStr (str ''Acme'')), (str ''category'', JStr (str ''Bogus'')),
           (str ''total'', JStr (str ''19.99''))] \<and>
   \<not> candidate_negative
       [(str ''vendor'', JStr (str ''Acme'')), (str ''category'', JStr (str ''Bogus'')),
        (str ''total'', JStr (str ''19.99''))] \<and>
   \<not> candidate_unreadable
       [(str ''vendor'', JStr (str ''Acme'')), (str ''category'', JStr (str ''Bogus'')),
        (str ''total'', JStr (str ''19.99''))] \<and>
   total_line_readable (str ''{\"vendor\":\"Acme\",\"category\":\"Bogus\",\"total\":\"19.99\"}'') \<and>
   (\<exists>r. analyzeReceiptWithGemini
      (map_of [(str ''{\"vendor\":\"Acme\",\"category\":\"Bogus\",\"total\":\"19.99\"}'',
                [(str ''vendor'', JStr (str ''Acme'')), (str ''category'', JStr (str ''Bogus'')),
                 (str ''total'', JStr (str ''19.99''))])])
      (str ''2024-03-01'')
      (str ''{\"vendor\":\"Acme\",\"category\":\"Bogus\",\"total\":\"19.99\"}'') = Inr r
      \<and> amounts_nonneg r \<and> total r = Fin (1999 / 100))"
proof -
  let ?t = "str ''{\"vendor\":\"Acme\",\"category\":\"Bogus\",\"total\":\"19.99\"}''"
  let ?pd = "[(str ''vendor'', JStr (str ''Acme'')), (str ''category'', JStr (str ''Bogus'')),
              (str ''total'', JStr (str ''19.99''))]"
  let ?P = "map_of [(?t, ?pd)]"
  let ?T = "str ''2024-03-01''"
  have d: "decoded ?P ?t = Some ?pd"
    by (simp add: decoded_def eval_defs)
  have n: "\<not> candidate_negative ?pd"
    by (simp add: candidate_negative_def reads_negative_def parseFloat_def get_def eval_defs
        Let_def)
  have u: "\<not> candidate_unreadable ?pd"
    by (simp add: candidate_unreadable_def get_def str_def)
  have l: "total_line_readable ?t"
    by (simp add: total_line_readable_def eval_defs)
  from d n u have h: "\<forall>pd. decoded ?P ?t = Some pd \<longrightarrow>
      \<not> candidate_negative pd \<and> \<not> candidate_unreadable pd"
    by simp
  from amounts_nonnegative [OF h l, of ?T]
  obtain r where r: "analyzeReceiptWithGemini ?P ?T ?t = Inr r" and a: "amounts_nonneg r"
    by blast
  have "map_sum id total (analyzeReceiptWithGemini ?P ?T ?t) = Inr (Fin (1999 / 100))"
    by (simp add: run_defs eval_defs Let_def)
  with r have "total r = Fin (1999 / 100)" by simp
  with d n u l r a show ?thesis by blast
qed

text \<open>
  The claim as first stated fails: the response \<open>{"total":-5}\<close> decodes to an object
  whose total is the number -5, and the returned record has total -5.
\<close>

theorem negative_total_counterexample:
  "map_sum id total
     (analyzeReceiptWithGemini
        (map_of [(str ''{\"total\":-5}'', [(str ''total'', JNum (Fin (- 5)))])])
        (str ''2024-03-01'') (str ''{\"total\":-5}''))
   = Inr (Fin (- 5)) \<and> \<not> nonneg (Fin (- 5))"
  by (simp add: run_defs eval_defs nonneg_def)

section \<open>Tier selection\<close>

text \<open>
  C2: the claim is that Tier 2 never runs once the brace-to-brace substring decodes as an
  object, so that a missing total is 0. The code at the input below: the substring
  decodes to an object with no total whose \<open>lineItems\<close> holds \<open>null\<close>; reading \<open>item.name\<close>
  throws inside the \<open>try\<close> block, the \<open>catch\<close> clause falls through, and the total 42 is
  taken from the \<open>total:\<close> line by Tier 2.
\<close>

theorem null_line_item_reaches_tier2:
  "decoded (map_of [(str ''{\"lineItems\":[null]}'', [(str ''lineItems'', JArr [JNull])])])
     (str ''total: 42 {\"lineItems\":[null]}'') = Some [(str ''lineItems'', JArr [JNull])]
   \<and> get [(str ''lineItems'', JArr [JNull])] ''total'' = JUndef
   \<and> map_sum id total
       (analyzeReceiptWithGemini
          (map_of [(str ''{\"lineItems\":[null]}'', [(str ''lineItems'', JArr [JNull])])])
          today (str ''total: 42 {\"lineItems\":[null]}''))
     = Inr (Fin 42)"
  by (simp add: run_defs eval_defs Let_def)

section \<open>Defaults in the Tier-2 record\<close>

text \<open>
  C4: the claim is that normalization never raises and yields a complete value for every
  field, defaults absorbing any malformed input. The function does return a record for
  every response, but not always a complete one. The code at two inputs with no JSON
  object: for the response \<open>total: .\<close> the total pattern captures the point, which
  \<open>parseFloat\<close> reads as NaN, and no default replaces it; for the response \<open>vendor:\<close>
  followed by one space the vendor pattern captures the space, and the vendor is the
  empty string.
\<close>

theorem tier2_total_is_NaN:
  "map_sum id total (analyzeReceiptWithGemini JSON_parse today (str ''total: .'')) = Inr NaN \<and>
   map_sum id vendor (analyzeReceiptWithGemini JSON_parse today (str ''vendor: ''))
     = Inr (JStr [])"
  by (simp add: run_defs eval_defs Let_def)

section \<open>Enumeration membership\<close>

text \<open>
  C6: the claim is that for every decoded Tier-1 object a category or payment method
  equal to one of the labels is kept and any other candidate becomes \<open>Other\<close>. The code
  at two inputs: for \<open>{"category":"Groceries","paymentMethod":"Cash"}\<close> both labels are
  kept; for the same object with \<open>"lineItems":[null]\<close> added, \<open>item.name\<close> throws, the
  \<open>catch\<close> clause falls through to Tier 2, and both fields are \<open>Other\<close>.
\<close>

theorem labels_lost_after_null_line_item:
  "map_sum id (\<lambda>r. (category r, paymentMethod r))
     (analyzeReceiptWithGemini
        (map_of [(str ''{\"category\":\"Groceries\",\"paymentMethod\":\"Cash\"}'',
                  [(str ''category'', JStr (str ''Groceries'')),
                   (str ''paymentMethod'', JStr (str ''Cash''))])])
        today (str ''{\"category\":\"Groceries\",\"paymentMethod\":\"Cash\"}''))
   = Inr (JStr (str ''Groceries''), JStr (str ''Cash'')) \<and>
   map_sum id (\<lambda>r. (category r, paymentMethod r))
     (analyzeReceiptWithGemini
        (map_of [(str ''{\"category\":\"Groceries\",\"paymentMethod\":\"Cash\",\"lineItems\":[null]}'',
                  [(str ''category'', JStr (str ''Groceries'')),
                   (str ''paymentMethod'', JStr (str ''Cash'')),
                   (str ''lineItems'', JArr [JNull])])])
        today
        (str ''{\"category\":\"Groceries\",\"paymentMethod\":\"Cash\",\"lineItems\":[null]}''))
   = Inr (JStr (str ''Other''), JStr (str ''Other''))"
  by (simp add: run_defs eval_defs Let_def)

section \<open>A zero confidence candidate\<close>

text \<open>
  C10: the claim is that for every decoded Tier-1 object whose confidence candidate reads
  as the number 0 the confidence is 0.5, as for an absent candidate. The code at two
  inputs: for \<open>{"confidence":0}\<close> the confidence is 0.5; for
  \<open>{"confidence":0,"lineItems":[null]}\<close>, \<open>item.name\<close> throws, the \<open>catch\<close> clause falls
  through to Tier 2, and the confidence is 0.3.
\<close>

theorem zero_confidence_after_null_line_item:
  "map_sum id confidence
     (analyzeReceiptWithGemini
        (map_of [(str ''{\"confidence\":0}'', [(str ''confidence'', JNum (Fin 0))])])
        today (str ''{\"confidence\":0}''))
   = Inr (Fin (1 / 2)) \<and>
   map_sum id confidence
     (analyzeReceiptWithGemini
        (map_of [(str ''{\"confidence\":0,\"lineItems\":[null]}'',
                  [(str ''confidence'', JNum (Fin 0)), (str ''lineItems'', JArr [JNull])])])
        today (str ''{\"confidence\":0,\"lineItems\":[null]}''))
   = Inr (Fin (3 / 10))"
  by (simp add: run_defs eval_defs Let_def)

section \<open>Confidence\<close>

text \<open>
  C5 (as amended): the confidence of every returned record lies in the interval from 0
  to 1. In a Tier-1 record a candidate that reads as a number of at least 1 (such as 1.7)
  gives exactly 1, one that reads as a negative number (such as -0.2) gives exactly 0,
  and an absent candidate gives 0.5. A Tier-2 record has the fixed confidence 0.3. The
  document of a manual entry has confidence 1.
\<close>

theorem confidence_rules:
  "(\<exists>r. analyzeReceiptWithGemini JSON_parse today t = Inr r \<and>
        num_le (Fin 0) (confidence r) \<and> num_le (confidence r) (Fin 1)) \<and>
   (tier1 today t pd = Inr r' \<longrightarrow>
      (parseFloat (get pd ''confidence'') = Inr n \<longrightarrow> num_le (Fin 1) n \<longrightarrow>
         confidence r' = Fin 1) \<and>
      (parseFloat (get pd ''confidence'') = Inr n \<longrightarrow> negative n \<longrightarrow>
         confidence r' = Fin 0) \<and>
      (get pd ''confidence'' = JUndef \<longrightarrow> confidence r' = Fin (1 / 2))) \<and>
   confidence (fallback today t) = Fin (3 / 10) \<and>
   (manual_doc body now = Inr doc \<longrightarrow> get doc ''confidence'' = JNum (Fin 1))"
proof -
  obtain r where r: "analyzeReceiptWithGemini JSON_parse today t = Inr r"
    using analyze_returns by blast
  from analyze_cases [OF r]
  have "num_le (Fin 0) (confidence r) \<and> num_le (confidence r) (Fin 1)"
  proof
    assume "r = fallback today t"
    then show ?thesis by (simp add: fallback_def)
  next
    assume "\<exists>pd. decoded JSON_parse t = Some pd \<and> tier1 today t pd = Inr r"
    then obtain pd' where "tier1 today t pd' = Inr r" by blast
    from tier1_Inr [OF this] obtain cf where
      "confidence r = Math_min (Math_max (or_num cf (Fin (1 / 2))) (Fin 0)) (Fin 1)"
      by blast
    then show ?thesis by (simp add: confidence_range)
  qed
  with r have first: "\<exists>r. analyzeReceiptWithGemini JSON_parse today t = Inr r \<and>
        num_le (Fin 0) (confidence r) \<and> num_le (confidence r) (Fin 1)" by blast
  have second: "tier1 today t pd = Inr r' \<longrightarrow>
      (parseFloat (get pd ''confidence'') = Inr n \<longrightarrow> num_le (Fin 1) n \<longrightarrow>
         confidence r' = Fin 1) \<and>
      (parseFloat (get pd ''confidence'') = Inr n \<longrightarrow> negative n \<longrightarrow>
         confidence r' = Fin 0) \<and>
      (get pd ''confidence'' = JUndef \<longrightarrow> confidence r' = Fin (1 / 2))"
  proof
    assume "tier1 today t pd = Inr r'"
    from tier1_Inr [OF this] obtain cf where cf: "parseFloat (get pd ''confidence'') = Inr cf"
      and c: "confidence r' = Math_min (Math_max (or_num cf (Fin (1 / 2))) (Fin 0)) (Fin 1)"
      by blast
    show "(parseFloat (get pd ''confidence'') = Inr n \<longrightarrow> num_le (Fin 1) n \<longrightarrow>
         confidence r' = Fin 1) \<and>
      (parseFloat (get pd ''confidence'') = Inr n \<longrightarrow> negative n \<longrightarrow>
         confidence r' = Fin 0) \<and>
      (get pd ''confidence'' = JUndef \<longrightarrow> confidence r' = Fin (1 / 2))"
      unfolding c using cf
      by (cases cf) (auto simp add: or_num_def Math_max_def Math_min_def parseFloat_simps)
  qed
  have third: "confidence (fallback today t) = Fin (3 / 10)"
    by (simp add: fallback_def)
  have fourth: "manual_doc body now = Inr doc \<longrightarrow> get doc ''confidence'' = JNum (Fin 1)"
    using manual_doc_Inr by blast
  from first second third fourth show ?thesis by blast
qed

text \<open>
  Instances: the decoded objects \<open>{"confidence":1.7}\<close>, \<open>{"confidence":-0.2}\<close> and \<open>{}\<close>.
\<close>

theorem confidence_rules_witness:
  "(\<exists>r. tier1 (str ''2024-03-01'') [] [(str ''confidence'', JNum (Fin (17 / 10)))] = Inr r \<and>
        confidence r = Fin 1) \<and>
   (\<exists>r. tier1 (str ''2024-03-01'') [] [(str ''confidence'', JNum (Fin (- (1 / 5))))] = Inr r \<and>
        confidence r = Fin 0) \<and>
   (\<exists>r. tier1 (str ''2024-03-01'') [] [] = Inr r \<and> confidence r = Fin (1 / 2))"
proof -
  let ?T = "str ''2024-03-01''"
  let ?hi = "[(str ''confidence'', JNum (Fin (17 / 10)))]"
  let ?lo = "[(str ''confidence'', JNum (Fin (- (1 / 5))))]"
  have "\<exists>r. tier1 ?T [] ?hi = Inr r"
    by (simp add: tier1_def optional_amount_def parseFloat_def and_then_def get_def str_def)
  then obtain r1 where r1: "tier1 ?T [] ?hi = Inr r1" by blast
  have "\<exists>r. tier1 ?T [] ?lo = Inr r"
    by (simp add: tier1_def optional_amount_def parseFloat_def and_then_def get_def str_def)
  then obtain r2 where r2: "tier1 ?T [] ?lo = Inr r2" by blast
  have "\<exists>r. tier1 ?T [] [] = Inr r"
    by (simp add: tier1_def optional_amount_def parseFloat_def and_then_def get_def)
  then obtain r3 where r3: "tier1 ?T [] [] = Inr r3" by blast
  have "confidence r1 = Fin 1"
    using confidence_rules [of "map_of []" ?T "[]" ?hi r1 "Fin (17 / 10)" "[]" JNull "[]"] r1
    by (simp add: get_def str_def parseFloat_simps)
  moreover have "confidence r2 = Fin 0"
    using confidence_rules [of "map_of []" ?T "[]" ?lo r2 "Fin (- (1 / 5))" "[]" JNull "[]"] r2
    by (simp add: get_def str_def parseFloat_simps)
  moreover have "confidence r3 = Fin (1 / 2)"
    using confidence_rules [of "map_of []" ?T "[]" "[]" r3 NaN "[]" JNull "[]"] r3
    by (simp add: get_def)
  ultimately show ?thesis using r1 r2 r3 by blast
qed

text \<open>
  The claim as first stated fails for a Tier-2 record: the response \<open>TOTAL: 12.50\<close> holds
  no JSON object, so there is no confidence candidate, and the confidence is 0.3, not 0.5.
\<close>

theorem tier2_confidence_counterexample:
  "decoded (map_of []) (str ''TOTAL: 12.50'') = None \<and>
   map_sum id confidence
     (analyzeReceiptWithGemini (map_of []) (str ''2024-03-01'') (str ''TOTAL: 12.50''))
   = Inr (Fin (3 / 10)) \<and> Fin (3 / 10) \<noteq> Fin (1 / 2)"
  by (simp add: run_defs eval_defs)

section \<open>The date\<close>




section \<open>The manual branch\<close>

text \<open>
  C3 (as amended): for every request body for which the manual branch builds its
  document (no conversion of the date or of an amount throws), category and payment
  method are taken from the body as they are when they are truthy and are \<open>Other\<close> only
  for an absent or falsy value; no membership test is made. Whenever, in addition, Tier 1
  of the scan path builds a record from the same object taken as decoded model output,
  the category (payment method) of the document equals that of the record exactly when
  the candidate is one of the labels or is falsy, and subtotal, tax, total and currency
  of the document equal those of the record.
\<close>

theorem manual_enum_rules:
  "(manual_doc body now = Inr doc \<longrightarrow>
      get doc ''category'' = or_else (get body ''category'') (JStr (str ''Other'')) \<and>
      get doc ''paymentMethod'' = or_else (get body ''paymentMethod'') (JStr (str ''Other''))) \<and>
   (manual_doc body now = Inr doc \<longrightarrow> tier1 today t body = Inr r \<longrightarrow>
      (get doc ''category'' = category r \<longleftrightarrow>
         array_includes ExpenseCategory_values (get body ''category'') \<or>
         \<not> truthy (get body ''category'')) \<and>
      (get doc ''paymentMethod'' = paymentMethod r \<longleftrightarrow>
         array_includes PaymentMethod_values (get body ''paymentMethod'') \<or>
         \<not> truthy (get body ''paymentMethod'')) \<and>
      get doc ''subtotal'' = JNum (subtotal r) \<and>
      get doc ''tax'' = JNum (tax r) \<and>
      get doc ''total'' = JNum (total r) \<and>
      get doc ''currency'' = currency r)"
proof -
  have cat: "or_else c (JStr ExpenseCategory_OTHER) =
               (if array_includes ExpenseCategory_values c then c else JStr ExpenseCategory_OTHER)
             \<longleftrightarrow> array_includes ExpenseCategory_values c \<or> \<not> truthy c" for c
    using label_truthy(1) [of c] other_is_label(1)
    by (auto simp add: or_else_def)
  have pay: "or_else c (JStr PaymentMethod_OTHER) =
               (if array_includes PaymentMethod_values c then c else JStr PaymentMethod_OTHER)
             \<longleftrightarrow> array_includes PaymentMethod_values c \<or> \<not> truthy c" for c
    using label_truthy(2) [of c] other_is_label(2)
    by (auto simp add: or_else_def)
  have first: "manual_doc body now = Inr doc \<longrightarrow>
      get doc ''category'' = or_else (get body ''category'') (JStr (str ''Other'')) \<and>
      get doc ''paymentMethod'' = or_else (get body ''paymentMethod'') (JStr (str ''Other''))"
    using manual_doc_Inr [of body now doc]
    by (auto simp add: ExpenseCategory_OTHER_def PaymentMethod_OTHER_def)
  have second: "manual_doc body now = Inr doc \<longrightarrow> tier1 today t body = Inr r \<longrightarrow>
      (get doc ''category'' = category r \<longleftrightarrow>
         array_includes ExpenseCategory_values (get body ''category'') \<or>
         \<not> truthy (get body ''category'')) \<and>
      (get doc ''paymentMethod'' = paymentMethod r \<longleftrightarrow>
         array_includes PaymentMethod_values (get body ''paymentMethod'') \<or>
         \<not> truthy (get body ''paymentMethod'')) \<and>
      get doc ''subtotal'' = JNum (subtotal r) \<and>
      get doc ''tax'' = JNum (tax r) \<and>
      get doc ''total'' = JNum (total r) \<and>
      get doc ''currency'' = currency r"
  proof (intro impI)
    assume m: "manual_doc body now = Inr doc" and s: "tier1 today t body = Inr r"
    from manual_doc_Inr [OF m] obtain st tx tt where mf:
      "parseFloat (get body ''subtotal'') = Inr st"
      "parseFloat (get body ''tax'') = Inr tx"
      "parseFloat (get body ''total'') = Inr tt"
      "get doc ''subtotal'' = JNum (or_num st (Fin 0))"
      "get doc ''tax'' = JNum (or_num tx (Fin 0))"
      "get doc ''total'' = JNum (or_num tt (Fin 0))"
      "get doc ''currency'' = or_else (get body ''currency'') (JStr (str ''USD''))"
      "get doc ''category'' = or_else (get body ''category'') (JStr ExpenseCategory_OTHER)"
      "get doc ''paymentMethod'' = or_else (get body ''paymentMethod'') (JStr PaymentMethod_OTHER)"
      by blast
    from tier1_Inr [OF s] obtain st' tx' tt' where sf:
      "parseFloat (get body ''subtotal'') = Inr st'"
      "parseFloat (get body ''tax'') = Inr tx'"
      "parseFloat (get body ''total'') = Inr tt'"
      "subtotal r = or_num st' (Fin 0)" "tax r = or_num tx' (Fin 0)"
      "total r = or_num tt' (Fin 0)"
      "currency r = or_else (get body ''currency'') (JStr (str ''USD''))"
      "category r = (if array_includes ExpenseCategory_values (get body ''category'')
                     then get body ''category'' else JStr ExpenseCategory_OTHER)"
      "paymentMethod r = (if array_includes PaymentMethod_values (get body ''paymentMethod'')
                          then get body ''paymentMethod'' else JStr PaymentMethod_OTHER)"
      by blast
    from mf(1-3) sf(1-3) have "st' = st" "tx' = tx" "tt' = tt" by simp_all
    with mf sf cat [of "get body ''category''"] pay [of "get body ''paymentMethod''"]
    show "(get doc ''category'' = category r \<longleftrightarrow>
         array_includes ExpenseCategory_values (get body ''category'') \<or>
         \<not> truthy (get body ''category'')) \<and>
      (get doc ''paymentMethod'' = paymentMethod r \<longleftrightarrow>
         array_includes PaymentMethod_values (get body ''paymentMethod'') \<or>
         \<not> truthy (get body ''paymentMethod'')) \<and>
      get doc ''subtotal'' = JNum (subtotal r) \<and>
      get doc ''tax'' = JNum (tax r) \<and>
      get doc ''total'' = JNum (total r) \<and>
      get doc ''currency'' = currency r"
      by simp
  qed
  from first second show ?thesis by blast
qed

text \<open>An instance: a manual body with the category \<open>Groceries\<close> and no payment method.\<close>

theorem manual_enum_rules_witness:
  "\<exists>doc r.
     manual_doc [(str ''manual'', JBool True), (str ''category'', JStr (str ''Groceries''))]
       (JDate (JNum (Fin 1718409600000))) = Inr doc \<and>
     tier1 (str ''2024-06-15'') []
       [(str ''manual'', JBool True), (str ''category'', JStr (str ''Groceries''))] = Inr r \<and>
     get doc ''category'' = JStr (str ''Groceries'') \<and>
     get doc ''category'' = category r \<and>
     get doc ''paymentMethod'' = paymentMethod r"
proof -
  let ?T = "str ''2024-06-15''"
  let ?b = "[(str ''manual'', JBool True), (str ''category'', JStr (str ''Groceries''))]"
  let ?now = "JDate (JNum (Fin 1718409600000))"
  have "\<exists>r. tier1 ?T [] ?b = Inr r"
    by (simp add: tier1_def optional_amount_def parseFloat_def and_then_def get_def str_def)
  then obtain r where r: "tier1 ?T [] ?b = Inr r" by blast
  have "\<exists>doc. manual_doc ?b ?now = Inr doc"
    by (simp add: manual_doc_def new_Date_def parseFloat_def and_then_def get_def str_def)
  then obtain doc where doc: "manual_doc ?b ?now = Inr doc" by blast
  have c: "array_includes ExpenseCategory_values (get ?b ''category'')"
    by (simp add: get_Cons array_includes_def ExpenseCategory_values_def str_eq_iff)
  have p: "\<not> truthy (get ?b ''paymentMethod'')"
    by (simp add: get_Cons get_Nil)
  from manual_enum_rules [of ?b ?now doc ?T "[]" r] doc r c p
  have "get doc ''category'' = category r" and "get doc ''paymentMethod'' = paymentMethod r"
    and "get doc ''category'' = or_else (get ?b ''category'') (JStr (str ''Other''))"
    by blast+
  moreover have "or_else (get ?b ''category'') (JStr (str ''Other'')) = JStr (str ''Groceries'')"
    by (simp add: get_def or_else_def str_def)
  ultimately show ?thesis using doc r by auto
qed

text \<open>
  The claim as first stated fails: a manual body with the category \<open>Bogus\<close> keeps
  \<open>Bogus\<close>, while the scan path turns the same candidate, in the response
  \<open>{"category":"Bogus"}\<close>, into \<open>Other\<close>.
\<close>

theorem manual_category_counterexample:
  "map_sum id (\<lambda>doc. get doc ''category'')
     (manual_doc [(str ''manual'', JBool True), (str ''category'', JStr (str ''Bogus''))]
        (JDate (JNum (Fin 1718409600000))))
   = Inr (JStr (str ''Bogus'')) \<and>
   map_sum id category
     (analyzeReceiptWithGemini
        (map_of [(str ''{\"category\":\"Bogus\"}'', [(str ''category'', JStr (str ''Bogus''))])])
        (str ''2024-06-15'') (str ''{\"category\":\"Bogus\"}''))
   = Inr (JStr (str ''Other'')) \<and>
   JStr (str ''Bogus'') \<noteq> JStr (str ''Other'')"
  by (simp add: manual_doc_def run_defs eval_defs)

text \<open>
  C7 (as amended): for every manual body in which every field is present and valid, the
  manual branch builds its document, and the document handed to \<open>Expense.create\<close> equals
  the body in each of the 24 carried fields; the date is \<open>new Date\<close> of the submitted
  date; the expense type is always \<open>Personal\<close> and the confidence always 1, whatever was
  submitted; the subcategory is not carried over; the source is \<open>manual\<close> and both time
  stamps are the current instant.
\<close>

theorem manual_round_trip:
  assumes "valid_manual_body body"
  shows "\<exists>doc. manual_doc body now = Inr doc \<and>
         (\<forall>k \<in> set carried_fields. get doc k = get body k) \<and>
         get doc ''date'' = JDate (get body ''date'') \<and>
         get doc ''expenseType'' = JStr (str ''Personal'') \<and>
         get doc ''confidence'' = JNum (Fin 1) \<and>
         get doc ''subcategory'' = JUndef \<and>
         get doc ''source'' = JStr (str ''manual'') \<and>
         get doc ''createdAt'' = now \<and>
         get doc ''updatedAt'' = now"
proof -
  from assms have v:
    "is_string (get body ''date'')"
    "is_amount (get body ''subtotal'')" "is_amount (get body ''tax'')"
    "is_amount (get body ''tip'')" "is_amount (get body ''discount'')"
    "is_amount (get body ''total'')"
    by (simp_all add: valid_manual_body_def)
  from v(2-6) obtain st tx tp ds tt where n:
    "parseFloat (get body ''subtotal'') = Inr st" "JNum (or_num st (Fin 0)) = get body ''subtotal''"
    "parseFloat (get body ''tax'') = Inr tx" "JNum (or_num tx (Fin 0)) = get body ''tax''"
    "parseFloat (get body ''tip'') = Inr tp" "JNum (or_num tp (Fin 0)) = get body ''tip''"
    "parseFloat (get body ''discount'') = Inr ds" "JNum (or_num ds (Fin 0)) = get body ''discount''"
    "parseFloat (get body ''total'') = Inr tt" "JNum (or_num tt (Fin 0)) = get body ''total''"
    using amount_keeps by metis
  obtain doc where doc: "manual_doc body now = Inr doc"
    by (simp add: manual_doc_def string_new_Date [OF v(1)] n and_then_simps)
  have carried: "\<forall>k \<in> set carried_fields. get doc k = get body k"
    using assms doc
    by (simp add: manual_doc_def string_new_Date [OF v(1)] n and_then_simps)
      (auto simp add: carried_fields_def valid_manual_body_def get_Cons
        or_else_keeps n label_truthy)
  have fixed: "get doc ''date'' = JDate (get body ''date'')"
    "get doc ''expenseType'' = JStr (str ''Personal'')"
    "get doc ''confidence'' = JNum (Fin 1)"
    "get doc ''subcategory'' = JUndef"
    "get doc ''source'' = JStr (str ''manual'')"
    "get doc ''createdAt'' = now"
    "get doc ''updatedAt'' = now"
    using doc
    by (auto simp add: manual_doc_def string_new_Date [OF v(1)] n and_then_simps
        get_Cons get_Nil ExpenseType_PERSONAL_def)
  from doc carried fixed show ?thesis by blast
qed

text \<open>An instance: the business lunch.\<close>

theorem manual_round_trip_witness:
  "valid_manual_body business_lunch \<and>
   (\<exists>doc. manual_doc business_lunch (JDate (JNum (Fin 1718409600000))) = Inr doc \<and>
          list_all (\<lambda>k. get doc k = get business_lunch k) carried_fields \<and>
          get doc ''date'' = JDate (JStr (str ''2024-03-01'')))"
proof -
  have "get business_lunch ''date'' = JStr (str ''2024-03-01'')"
    by (simp add: business_lunch_def get_Cons)
  with manual_round_trip [OF business_lunch_valid, of "JDate (JNum (Fin 1718409600000))"]
    business_lunch_valid
  show ?thesis by (auto simp add: list_all_iff)
qed

text \<open>
  The claim as first stated fails: the business lunch is submitted with the expense type
  \<open>Business\<close> and the confidence 0.8, and the document has \<open>Personal\<close> and 1.
\<close>

theorem manual_round_trip_counterexample:
  "valid_manual_body business_lunch \<and>
   get business_lunch ''expenseType'' = JStr (str ''Business'') \<and>
   map_sum id (\<lambda>doc. get doc ''expenseType'')
     (manual_doc business_lunch (JDate (JNum (Fin 1718409600000))))
     = Inr (JStr (str ''Personal'')) \<and>
   JStr (str ''Personal'') \<noteq> JStr (str ''Business'') \<and>
   get business_lunch ''confidence'' = JNum (Fin (4 / 5)) \<and>
   map_sum id (\<lambda>doc. get doc ''confidence'')
     (manual_doc business_lunch (JDate (JNum (Fin 1718409600000))))
     = Inr (JNum (Fin 1))"
  using business_lunch_valid
  by (simp add: business_lunch_def manual_doc_def new_Date_def parseFloat_def and_then_def
      get_Cons ExpenseType_PERSONAL_def str_eq_iff)

end
